theory Spec2Isabelle
  imports Main "HOL-Library.Multiset" "HOL-Library.Word"
begin

section \<open>Go values and outcomes\<close>

text \<open>
  A Go call either returns or panics. A panic is a value of the model, so that a claim
  such as "never panics" is a statement about the result of the function.
\<close>

datatype panic =
    NilPointerDereference | TypeAssertionFailed | IndexOutOfRange | MakeChanSizeOutOfRange
  | EncodeNilPointer

datatype 'a go = Panic panic | Return 'a

fun go_bind :: "'a go \<Rightarrow> ('a \<Rightarrow> 'b go) \<Rightarrow> 'b go" where
  "go_bind (Panic p) f = Panic p"
| "go_bind (Return x) f = f x"

text \<open>
  Go strings are byte sequences, and \<open>[]byte(s)\<close> is the same sequence: both are
  \<^typ>\<open>string\<close> here. \<open>fmt.Sprintf("%d", n)\<close> prints a signed decimal numeral.
\<close>

type_synonym bytes = string

definition digit_char :: "nat \<Rightarrow> char" where
  "digit_char d = ''0123456789'' ! d"

function show_nat :: "nat \<Rightarrow> string" where
  "show_nat n = (if n < 10 then [digit_char n] else show_nat (n div 10) @ [digit_char (n mod 10)])"
  by pat_completeness auto
termination
  by (relation "measure id") auto

definition show_int :: "int \<Rightarrow> string" where
  "show_int i = (if i < 0 then CHR ''-'' # show_nat (nat (- i)) else show_nat (nat i))"

text \<open>\<open>hex.EncodeToString\<close>: two lower-case hexadecimal digits for every byte.\<close>

definition hex_digit :: "nat \<Rightarrow> char" where
  "hex_digit d = ''0123456789abcdef'' ! d"

definition hex_EncodeToString :: "bytes \<Rightarrow> string" where
  "hex_EncodeToString bs =
     concat (map (\<lambda>c. [hex_digit (of_char c div 16), hex_digit ((of_char c :: nat) mod 16)]) bs)"

section \<open>Signatures (package rainslib): SignData and VerifySignature\<close>

text \<open>
  \<open>SignatureAlgorithmType\<close> is an integer enumeration declared elsewhere in the repository;
  the switch statements name its four constants. The numeric code printed
  by \<open>%d\<close> is a parameter (\<open>AlgorithmCode\<close> below).
\<close>

datatype SignatureAlgorithmType = Ed25519 | Ed448 | Ecdsa256 | Ecdsa384 | OtherAlgorithm int

text \<open>
  The dynamic values that reach the \<open>interface{}\<close> parameters and the \<open>Data\<close> field:
  the nil interface, a byte slice, the two named byte-slice key types of package ed25519,
  pointers to the ECDSA key structs, a slice of big integers, and any other value.
\<close>

datatype ('sk, 'pk) GoValue =
    Nil
  | Bytes bytes
  | Ed25519PrivateKey bytes
  | Ed25519PublicKey bytes
  | EcdsaPrivateKey 'sk
  | EcdsaPublicKey 'pk
  | BigInts "int list"
  | OtherValue string

record ('sk, 'pk) Signature =
  KeySpace :: int
  Algorithm :: SignatureAlgorithmType
  ValidSince :: int
  ValidUntil :: int
  Data :: "('sk, 'pk) GoValue"

text \<open>
  The cryptographic primitives are library code (golang.org/x/crypto/ed25519,
  crypto/ecdsa, crypto/sha256, crypto/sha512). They are parameters of the model.
  \<open>ecdsa.Sign\<close> reads \<open>rand.Reader\<close>: the entropy it consumes is the argument \<open>'rnd\<close>,
  and it may return an error. \<open>log_Debug\<close> says whether the installed log handler
  formats records of level Debug, as the default handler of log15 does; formatting a
  record calls the \<open>String()\<close> method of its values and lets a panic of it through.
\<close>

record ('sk, 'pk, 'rnd) Crypto =
  AlgorithmCode :: "SignatureAlgorithmType \<Rightarrow> int"
  log_Debug :: bool
  ed25519_Sign :: "bytes \<Rightarrow> bytes \<Rightarrow> bytes"
  ed25519_Verify :: "bytes \<Rightarrow> bytes \<Rightarrow> bytes \<Rightarrow> bool"
  ecdsa_Sign :: "'rnd \<Rightarrow> 'sk \<Rightarrow> bytes \<Rightarrow> string + (int \<times> int)"
  ecdsa_Verify :: "'pk \<Rightarrow> bytes \<Rightarrow> int \<Rightarrow> int \<Rightarrow> bool"
  sha256_Sum256 :: "bytes \<Rightarrow> bytes"
  sha512_Sum384 :: "bytes \<Rightarrow> bytes"

text \<open>\<open>GetSignatureMetaData\<close>: \<open>fmt.Sprintf("%d %d %d %d", KeySpace, Algorithm, ValidSince, ValidUntil)\<close>.\<close>

definition GetSignatureMetaData ::
  "('sk, 'pk, 'rnd) Crypto \<Rightarrow> ('sk, 'pk) Signature \<Rightarrow> string" where
  "GetSignatureMetaData C sig =
     show_int (KeySpace sig) @ '' '' @ show_int (AlgorithmCode C (Algorithm sig)) @ '' '' @
     show_int (ValidSince sig) @ '' '' @ show_int (ValidUntil sig)"

text \<open>
  \<open>Signature.String\<close>: for the algorithm Ed25519 the data is printed as \<open>nil\<close> or
  as the hexadecimal form of \<open>sig.Data.([]byte)\<close>, an unchecked assertion.
\<close>

definition Signature_String ::
  "('sk, 'pk, 'rnd) Crypto \<Rightarrow> ('sk, 'pk) Signature \<Rightarrow> string go" where
  "Signature_String C sig =
     go_bind
       (if Algorithm sig = Ed25519 then
          (if Data sig = Nil then Return ''nil''
           else (case Data sig of
                   Bytes b \<Rightarrow> Return (hex_EncodeToString b)
                 | _ \<Rightarrow> Panic TypeAssertionFailed))
        else Return ''notYetImplementedInString()'')
       (\<lambda>data. Return (''keyspace='' @ show_int (KeySpace sig) @
          '', algoType='' @ show_int (AlgorithmCode C (Algorithm sig)) @
          '', validSince='' @ show_int (ValidSince sig) @
          '', validUntil='' @ show_int (ValidUntil sig) @ '', data='' @ data))"

text \<open>
  \<open>SignData\<close> returns the error (\<open>None\<close> is Go's nil error) and the signature as the
  pointer receiver leaves it. In the Ed25519 case the arguments of \<open>log.Debug\<close> hold the
  unchecked assertion \<open>privateKey.(ed25519.PrivateKey)\<close>, evaluated before the checked
  one: a key of another type panics there. The same call logs \<open>sig\<close> itself, so a
  handler that formats the record runs \<open>Signature.String\<close> on it. The other log calls
  of the two functions pass no value whose formatting can fail.
\<close>

definition SignData ::
  "('sk, 'pk, 'rnd) Crypto \<Rightarrow> 'rnd \<Rightarrow> ('sk, 'pk) Signature \<Rightarrow> ('sk, 'pk) GoValue \<Rightarrow> string
     \<Rightarrow> (string option \<times> ('sk, 'pk) Signature) go" where
  "SignData C rnd sig privateKey encoding =
     (if privateKey = Nil then Return (Some ''privateKey is nil'', sig)
      else
        let encoding = encoding @ GetSignatureMetaData C sig;
            data = encoding
        in case Algorithm sig of
             Ed25519 \<Rightarrow>
               (case privateKey of
                  Ed25519PrivateKey pkey \<Rightarrow>
                    go_bind
                      (if log_Debug C then Signature_String C sig else Return [])
                      (\<lambda>logged. Return (None, sig\<lparr>Data := Bytes (ed25519_Sign C pkey data)\<rparr>))
                | _ \<Rightarrow> Panic TypeAssertionFailed)
           | Ed448 \<Rightarrow> Return (Some ''ed448 not yet supported in SignData()'', sig)
           | Ecdsa256 \<Rightarrow>
               (case privateKey of
                  EcdsaPrivateKey pkey \<Rightarrow>
                    (let hash = sha256_Sum256 C data
                     in case ecdsa_Sign C rnd pkey hash of
                          Inl err \<Rightarrow> Return (Some err, sig)
                        | Inr (r, s) \<Rightarrow> Return (None, sig\<lparr>Data := BigInts [r, s]\<rparr>))
                | _ \<Rightarrow> Return (Some ''could not assert type ecdsa.PrivateKey'', sig))
           | Ecdsa384 \<Rightarrow>
               (case privateKey of
                  EcdsaPrivateKey pkey \<Rightarrow>
                    (let hash = sha512_Sum384 C data
                     in case ecdsa_Sign C rnd pkey hash of
                          Inl err \<Rightarrow> Return (Some err, sig)
                        | Inr (r, s) \<Rightarrow> Return (None, sig\<lparr>Data := BigInts [r, s]\<rparr>))
                | _ \<Rightarrow> Return (Some ''could not assert type ecdsa.PrivateKey'', sig))
           | OtherAlgorithm _ \<Rightarrow> Return (Some ''signature algorithm type not supported'', sig))"

text \<open>
  \<open>VerifySignature\<close>. In the Ed25519 case the key is asserted with the checked form, the
  signature data with the unchecked form \<open>sig.Data.([]byte)\<close>; the two ECDSA cases check
  both and also the length of the slice.
\<close>

definition VerifySignature ::
  "('sk, 'pk, 'rnd) Crypto \<Rightarrow> ('sk, 'pk) Signature \<Rightarrow> ('sk, 'pk) GoValue \<Rightarrow> string \<Rightarrow> bool go" where
  "VerifySignature C sig publicKey encoding =
     (if Data sig = Nil then Return False
      else if publicKey = Nil then Return False
      else
        let encoding = encoding @ GetSignatureMetaData C sig;
            data = encoding
        in case Algorithm sig of
             Ed25519 \<Rightarrow>
               (case publicKey of
                  Ed25519PublicKey pkey \<Rightarrow>
                    (case Data sig of
                       Bytes sigBytes \<Rightarrow> Return (ed25519_Verify C pkey data sigBytes)
                     | _ \<Rightarrow> Panic TypeAssertionFailed)
                | _ \<Rightarrow> Return False)
           | Ed448 \<Rightarrow> Return False
           | Ecdsa256 \<Rightarrow>
               (case publicKey of
                  EcdsaPublicKey pkey \<Rightarrow>
                    (case Data sig of
                       BigInts [r, s] \<Rightarrow> Return (ecdsa_Verify C pkey (sha256_Sum256 C data) r s)
                     | _ \<Rightarrow> Return False)
                | _ \<Rightarrow> Return False)
           | Ecdsa384 \<Rightarrow>
               (case publicKey of
                  EcdsaPublicKey pkey \<Rightarrow>
                    (case Data sig of
                       BigInts [r, s] \<Rightarrow> Return (ecdsa_Verify C pkey (sha512_Sum384 C data) r s)
                     | _ \<Rightarrow> Return False)
                | _ \<Rightarrow> Return False)
           | OtherAlgorithm _ \<Rightarrow> Return False)"

text \<open>
  A key pair matches an algorithm when both keys have the Go types that the algorithm's
  case asserts and the library verifies what the private key signs. No key type belongs
  to \<open>Ed448\<close> or to an algorithm outside the enumeration.
\<close>

fun keypair_matches ::
  "('sk, 'pk, 'rnd) Crypto \<Rightarrow> SignatureAlgorithmType \<Rightarrow> ('sk, 'pk) GoValue
     \<Rightarrow> ('sk, 'pk) GoValue \<Rightarrow> bool" where
  "keypair_matches C Ed25519 (Ed25519PrivateKey s) (Ed25519PublicKey p) =
     (\<forall>msg. ed25519_Verify C p msg (ed25519_Sign C s msg))"
| "keypair_matches C Ecdsa256 (EcdsaPrivateKey s) (EcdsaPublicKey p) =
     (\<forall>rnd h r t. ecdsa_Sign C rnd s h = Inr (r, t) \<longrightarrow> ecdsa_Verify C p h r t)"
| "keypair_matches C Ecdsa384 (EcdsaPrivateKey s) (EcdsaPublicKey p) =
     (\<forall>rnd h r t. ecdsa_Sign C rnd s h = Inr (r, t) \<longrightarrow> ecdsa_Verify C p h r t)"
| "keypair_matches C _ _ _ = False"

text \<open>A concrete instance of the primitives, for evaluation: a keyed prefix as signature.\<close>

definition toy_crypto :: "(int, int, int) Crypto" where
  "toy_crypto = \<lparr>AlgorithmCode = (\<lambda>a. 1), log_Debug = True, ed25519_Sign = (\<lambda>k m. k @ m),
     ed25519_Verify = (\<lambda>k m s. s = k @ m),
     ecdsa_Sign = (\<lambda>rnd k h. if rnd = 0 then Inl ''no entropy'' else Inr (k + int (length h), rnd)),
     ecdsa_Verify = (\<lambda>k h r s. r = k + int (length h)),
     sha256_Sum256 = (\<lambda>d. take 32 d), sha512_Sum384 = (\<lambda>d. take 48 d)\<rparr>"

definition sig0 :: "(int, int) Signature" where
  "sig0 = \<lparr>KeySpace = 0, Algorithm = Ed25519, ValidSince = 100, ValidUntil = 200, Data = Nil\<rparr>"

text \<open>A signature value that still carries the data of an earlier ECDSA signature.\<close>

definition stale_sig :: "(int, int) Signature" where
  "stale_sig = \<lparr>KeySpace = 0, Algorithm = Ed25519, ValidSince = 100, ValidUntil = 200,
     Data = BigInts [1, 2]\<rparr>"

definition sig1 :: "(int, int) Signature" where
  "sig1 = \<lparr>KeySpace = 0, Algorithm = Ecdsa256, ValidSince = 100, ValidUntil = 200, Data = Nil\<rparr>"

section \<open>Messages (package rainslib): RainsMessage.Sort\<close>

text \<open>
  A \<open>MessageSection\<close> is an interface value: a dynamic type and the struct it points to.
  The eight section structs and their methods \<open>Sort\<close> and \<open>CompareTo\<close> are declared
  elsewhere in the repository, so the struct contents are a type parameter \<open>'p\<close> and the
  methods are parameters, one per dynamic type. \<open>UnsupportedSection\<close> stands for any
  other implementation of the interface (the \<open>default\<close> case of the type switch).
\<close>

datatype SectionType =
    AssertionSection | ShardSection | ZoneSection | QuerySection | NotificationSection
  | AddressAssertionSection | AddressZoneSection | AddressQuerySection | UnsupportedSection

datatype 'p MessageSection = Section (sectionType: SectionType) (content: 'p)

record ('p, 'sk, 'pk) RainsMessage =
  Token :: bytes
  Content :: "'p MessageSection list"
  Signatures :: "('sk, 'pk) Signature list"
  Capabilities :: "string list"

text \<open>
  \<open>Sort_section t\<close> is the method \<open>Sort()\<close> of the struct of dynamic type \<open>t\<close> (it
  reorders the struct in place), \<open>CompareTo t\<close> is its \<open>CompareTo\<close>, and \<open>sort_Slice\<close>
  is Go's library routine \<open>sort.Slice\<close>, given the \<open>less\<close> function on elements.
\<close>

record 'p SectionMethods =
  Sort_section :: "SectionType \<Rightarrow> 'p \<Rightarrow> 'p"
  CompareTo :: "SectionType \<Rightarrow> 'p \<Rightarrow> 'p \<Rightarrow> int"
  sort_Slice :: "('p \<Rightarrow> 'p \<Rightarrow> bool) \<Rightarrow> 'p list \<Rightarrow> 'p list"

text \<open>The eight local slices of \<open>Sort\<close>.\<close>

record 'p slices =
  assertions :: "'p list"
  shards :: "'p list"
  zones :: "'p list"
  queries :: "'p list"
  addressAssertions :: "'p list"
  addressZones :: "'p list"
  addressQueries :: "'p list"
  notifications :: "'p list"

definition nil_slices :: "'p slices" where
  "nil_slices = \<lparr>assertions = [], shards = [], zones = [], queries = [],
     addressAssertions = [], addressZones = [], addressQueries = [], notifications = []\<rparr>"

text \<open>
  The first loop: every section is sorted in place, then appended to the slice of its
  dynamic type; a section of another type is logged and left out.
\<close>

fun distribute :: "'p SectionMethods \<Rightarrow> 'p MessageSection list \<Rightarrow> 'p slices \<Rightarrow> 'p slices" where
  "distribute M [] v = v"
| "distribute M (sec # rest) v =
     (let s = Sort_section M (sectionType sec) (content sec)
      in distribute M rest
           (case sectionType sec of
              AssertionSection \<Rightarrow> v\<lparr>assertions := assertions v @ [s]\<rparr>
            | ShardSection \<Rightarrow> v\<lparr>shards := shards v @ [s]\<rparr>
            | ZoneSection \<Rightarrow> v\<lparr>zones := zones v @ [s]\<rparr>
            | QuerySection \<Rightarrow> v\<lparr>queries := queries v @ [s]\<rparr>
            | NotificationSection \<Rightarrow> v\<lparr>notifications := notifications v @ [s]\<rparr>
            | AddressAssertionSection \<Rightarrow> v\<lparr>addressAssertions := addressAssertions v @ [s]\<rparr>
            | AddressZoneSection \<Rightarrow> v\<lparr>addressZones := addressZones v @ [s]\<rparr>
            | AddressQuerySection \<Rightarrow> v\<lparr>addressQueries := addressQueries v @ [s]\<rparr>
            | UnsupportedSection \<Rightarrow> v))"

definition less_of :: "'p SectionMethods \<Rightarrow> SectionType \<Rightarrow> 'p \<Rightarrow> 'p \<Rightarrow> bool" where
  "less_of M t a b = (CompareTo M t a b < 0)"

text \<open>
  \<open>Sort\<close>: the eight calls of \<open>sort.Slice\<close> with \<open>less(i, j) = (x[i].CompareTo(x[j]) < 0)\<close>,
  then the eight loops that rebuild \<open>m.Content\<close>.
\<close>

definition Sort ::
  "'p SectionMethods \<Rightarrow> ('p, 'sk, 'pk) RainsMessage \<Rightarrow> ('p, 'sk, 'pk) RainsMessage" where
  "Sort M m =
     (let v = distribute M (Content m) nil_slices;
          assertions = sort_Slice M (less_of M AssertionSection) (assertions v);
          shards = sort_Slice M (less_of M ShardSection) (shards v);
          zones = sort_Slice M (less_of M ZoneSection) (zones v);
          queries = sort_Slice M (less_of M QuerySection) (queries v);
          addressAssertions = sort_Slice M (less_of M AddressAssertionSection) (addressAssertions v);
          addressZones = sort_Slice M (less_of M AddressZoneSection) (addressZones v);
          addressQueries = sort_Slice M (less_of M AddressQuerySection) (addressQueries v);
          notifications = sort_Slice M (less_of M NotificationSection) (notifications v)
      in m\<lparr>Content :=
             map (Section AddressQuerySection) addressQueries @
             map (Section AddressZoneSection) addressZones @
             map (Section AddressAssertionSection) addressAssertions @
             map (Section AssertionSection) assertions @
             map (Section ShardSection) shards @
             map (Section ZoneSection) zones @
             map (Section QuerySection) queries @
             map (Section NotificationSection) notifications\<rparr>)"

text \<open>
  What the library documents of \<open>sort.Slice\<close>: it permutes the slice, and when \<open>less\<close>
  is a strict weak ordering the result is sorted by it. It is not guaranteed to be stable.
\<close>

definition strict_weak_order :: "('a \<Rightarrow> 'a \<Rightarrow> bool) \<Rightarrow> bool" where
  "strict_weak_order lt =
     ((\<forall>a. \<not> lt a a) \<and>
      (\<forall>a b c. lt a b \<and> lt b c \<longrightarrow> lt a c) \<and>
      (\<forall>a b c. \<not> lt a b \<and> \<not> lt b c \<longrightarrow> \<not> lt a c))"

definition sort_Slice_contract :: "(('a \<Rightarrow> 'a \<Rightarrow> bool) \<Rightarrow> 'a list \<Rightarrow> 'a list) \<Rightarrow> bool" where
  "sort_Slice_contract srt =
     (\<forall>lt xs. mset (srt lt xs) = mset xs \<and>
        (strict_weak_order lt \<longrightarrow> sorted_wrt (\<lambda>a b. \<not> lt b a) (srt lt xs)))"

text \<open>
  A three-way comparison in the usual sense: zero on equal arguments, its sign flips
  with the arguments, and "not greater" is transitive. It is a total order when moreover
  only equal values compare as zero.
\<close>

definition comparator :: "('a \<Rightarrow> 'a \<Rightarrow> int) \<Rightarrow> bool" where
  "comparator cmp =
     ((\<forall>a. cmp a a = 0) \<and>
      (\<forall>a b. (cmp a b < 0) = (0 < cmp b a)) \<and>
      (\<forall>a b c. cmp a b \<le> 0 \<and> cmp b c \<le> 0 \<longrightarrow> cmp a c \<le> 0))"

definition total_comparator :: "('a \<Rightarrow> 'a \<Rightarrow> int) \<Rightarrow> bool" where
  "total_comparator cmp = (comparator cmp \<and> (\<forall>a b. cmp a b = 0 \<longrightarrow> a = b))"

text \<open>The position of a section type in the order the spec gives for a sorted message.\<close>

fun kind_rank :: "SectionType \<Rightarrow> nat" where
  "kind_rank AddressQuerySection = 0"
| "kind_rank AddressZoneSection = 1"
| "kind_rank AddressAssertionSection = 2"
| "kind_rank AssertionSection = 3"
| "kind_rank ShardSection = 4"
| "kind_rank ZoneSection = 5"
| "kind_rank QuerySection = 6"
| "kind_rank NotificationSection = 7"
| "kind_rank UnsupportedSection = 8"

text \<open>A section after its own in-place \<open>Sort()\<close>.\<close>

definition sorted_section :: "'p SectionMethods \<Rightarrow> 'p MessageSection \<Rightarrow> 'p MessageSection" where
  "sorted_section M sec = Section (sectionType sec) (Sort_section M (sectionType sec) (content sec))"

text \<open>A concrete instance: insertion sort as \<open>sort.Slice\<close>, integers as section contents.\<close>

fun insert_by :: "('a \<Rightarrow> 'a \<Rightarrow> bool) \<Rightarrow> 'a \<Rightarrow> 'a list \<Rightarrow> 'a list" where
  "insert_by lt x [] = [x]"
| "insert_by lt x (y # ys) = (if lt x y then x # y # ys else y # insert_by lt x ys)"

fun insertion_sort :: "('a \<Rightarrow> 'a \<Rightarrow> bool) \<Rightarrow> 'a list \<Rightarrow> 'a list" where
  "insertion_sort lt [] = []"
| "insertion_sort lt (x # xs) = insert_by lt x (insertion_sort lt xs)"

definition int_compare :: "int \<Rightarrow> int \<Rightarrow> int" where
  "int_compare a b = (if a < b then - 1 else if a = b then 0 else 1)"

definition int_methods :: "int SectionMethods" where
  "int_methods = \<lparr>Sort_section = (\<lambda>t p. \<bar>p\<bar>), CompareTo = (\<lambda>t. int_compare),
     sort_Slice = insertion_sort\<rparr>"

text \<open>
  Notions for stating and proving the properties of \<open>Sort\<close>: the sorted contents of
  the sections of one type, the group they form in the result, and the result as a whole.
\<close>

definition of_type :: "'p SectionMethods \<Rightarrow> SectionType \<Rightarrow> 'p MessageSection list \<Rightarrow> 'p list" where
  "of_type M t xs = map (\<lambda>s. Sort_section M t (content s)) (filter (\<lambda>s. sectionType s = t) xs)"

definition group_of :: "'p SectionMethods \<Rightarrow> SectionType \<Rightarrow> 'p MessageSection list \<Rightarrow> 'p MessageSection list" where
  "group_of M t xs = map (Section t) (sort_Slice M (less_of M t) (of_type M t xs))"

definition sorted_content :: "'p SectionMethods \<Rightarrow> 'p MessageSection list \<Rightarrow> 'p MessageSection list" where
  "sorted_content M xs =
     group_of M AddressQuerySection xs @ group_of M AddressZoneSection xs @
     group_of M AddressAssertionSection xs @ group_of M AssertionSection xs @
     group_of M ShardSection xs @ group_of M ZoneSection xs @
     group_of M QuerySection xs @ group_of M NotificationSection xs"

definition msg0 :: "(int, int, int) RainsMessage" where
  "msg0 = \<lparr>Token = ''0123456789abcdef'',
     Content = [Section ShardSection (- 3), Section AssertionSection 5, Section NotificationSection 2,
                Section AssertionSection (- 1), Section AddressQuerySection 9],
     Signatures = [], Capabilities = [''urn:x-rains:tlssrv'']\<rparr>"



definition kind_order :: "SectionType list" where
  "kind_order = [AddressQuerySection, AddressZoneSection, AddressAssertionSection,
     AssertionSection, ShardSection, ZoneSection, QuerySection, NotificationSection]"

section \<open>Utilities (package util): Save and UpdateSectionValidity\<close>

text \<open>
  \<open>os.Create\<close>, the gob encoder and \<open>File.Close\<close> are library code acting on the file
  system, whose state is threaded through. \<open>os.Create\<close> returns an error or an open
  file; \<open>Close\<close> on the nil file that comes with an error returns an error, it does
  not panic. \<open>Encoder.Encode\<close> returns an error or nil, or it panics: package gob
  documents the panic for a nil pointer.
\<close>

record ('fs, 'obj) FileSystem =
  os_Create :: "'fs \<Rightarrow> string \<Rightarrow> 'fs \<times> (string + nat)"
  gob_Encode :: "'fs \<Rightarrow> nat \<Rightarrow> 'obj \<Rightarrow> ('fs \<times> string option) go"
  file_Close :: "'fs \<Rightarrow> nat option \<Rightarrow> 'fs \<times> string option"

text \<open>
  \<open>Save\<close> returns the error of \<open>os.Create\<close>; the result of \<open>encoder.Encode\<close> and of the
  deferred \<open>file.Close()\<close> are dropped. \<open>Save\<close> does not recover: when \<open>Encode\<close>
  panics the deferred \<open>Close\<close> runs and the panic goes on to the caller.
\<close>

definition Save ::
  "('fs, 'obj) FileSystem \<Rightarrow> 'fs \<Rightarrow> string \<Rightarrow> 'obj \<Rightarrow> ('fs \<times> string option) go" where
  "Save X fs path object =
     (case os_Create X fs path of
        (fs1, Inl err) \<Rightarrow>
          (let (fs2, _) = file_Close X fs1 None in Return (fs2, Some err))
      | (fs1, Inr file) \<Rightarrow>
          (case gob_Encode X fs1 file object of
             Panic p \<Rightarrow> Panic p
           | Return (fs2, _) \<Rightarrow>
               (let (fs3, _) = file_Close X fs2 (Some file) in Return (fs3, None))))"

text \<open>
  A file system for evaluation: the list of files as (path, contents). An empty path
  cannot be created. Of the objects, a nil pointer makes the encoder panic, the nil
  interface makes it return an error, and a string is written to the file.
\<close>

datatype toy_object = NilPointer | NilValue | Text string

definition toy_fs :: "((string \<times> string) list, toy_object) FileSystem" where
  "toy_fs = \<lparr>
     os_Create = (\<lambda>fs path. if path = [] then (fs, Inl ''open : no such file or directory'')
                             else (fs @ [(path, [])], Inr (length fs))),
     gob_Encode = (\<lambda>fs file obj. case obj of
                       NilPointer \<Rightarrow> Panic EncodeNilPointer
                     | NilValue \<Rightarrow> Return (fs, Some ''gob: cannot encode nil value'')
                     | Text v \<Rightarrow> Return (fs[file := (fst (fs ! file), v)], None)),
     file_Close = (\<lambda>fs file. case file of None \<Rightarrow> (fs, Some ''invalid argument'')
                             | Some f \<Rightarrow> (fs, None))\<rparr>"

record MaxCacheValidity =
  AssertionValidity :: int
  ShardValidity :: int
  ZoneValidity :: int
  AddressAssertionValidity :: int
  AddressZoneValidity :: int

text \<open>
  \<open>UpdateSectionValidity\<close>. The section is an interface value that may be nil
  (\<open>None\<close>); \<open>upd\<close> is its method \<open>UpdateValidity(validSince, validUntil, maxValidity)\<close>,
  which changes the section in place. The bounds are \<open>int64\<close> and are only compared.
\<close>

definition UpdateSectionValidity ::
  "('p MessageSection \<Rightarrow> int \<Rightarrow> int \<Rightarrow> int \<Rightarrow> 'p MessageSection) \<Rightarrow> 'p MessageSection option
     \<Rightarrow> int \<Rightarrow> int \<Rightarrow> int \<Rightarrow> int \<Rightarrow> MaxCacheValidity \<Rightarrow> 'p MessageSection option" where
  "UpdateSectionValidity upd sec pkeyValidSince pkeyValidUntil sigValidSince sigValidUntil maxVal =
     (case sec of
        None \<Rightarrow> None
      | Some s \<Rightarrow>
          (case (case sectionType s of
                   AssertionSection \<Rightarrow> Some (AssertionValidity maxVal)
                 | ShardSection \<Rightarrow> Some (ShardValidity maxVal)
                 | ZoneSection \<Rightarrow> Some (ZoneValidity maxVal)
                 | AddressAssertionSection \<Rightarrow> Some (AddressAssertionValidity maxVal)
                 | AddressZoneSection \<Rightarrow> Some (AddressZoneValidity maxVal)
                 | _ \<Rightarrow> None) of
             None \<Rightarrow> Some s
           | Some maxValidity \<Rightarrow>
               Some (if pkeyValidSince < sigValidSince then
                       (if pkeyValidUntil < sigValidUntil
                        then upd s sigValidSince pkeyValidUntil maxValidity
                        else upd s sigValidSince sigValidUntil maxValidity)
                     else
                       (if pkeyValidUntil < sigValidUntil
                        then upd s pkeyValidSince pkeyValidUntil maxValidity
                        else upd s pkeyValidSince sigValidUntil maxValidity))))"

record Validity =
  validSince :: int
  validUntil :: int

text \<open>
  Modelled from the spec: the method \<open>UpdateValidity\<close> of the signable sections is not
  in the sources under verification. The spec: "A section's effective validity is
  [max(sigValidSince, pkeyValidSince), min(sigValidUntil, pkeyValidUntil)], further
  capped at now + maxValidity[sectionKind]". The method stores the window it is given,
  its end capped at \<open>now + maxValidity\<close>, the sum as the spec writes it, with the time
  and the duration in one unit.
\<close>

definition UpdateValidity ::
  "int \<Rightarrow> 'a Validity_scheme MessageSection \<Rightarrow> int \<Rightarrow> int \<Rightarrow> int \<Rightarrow> 'a Validity_scheme MessageSection" where
  "UpdateValidity now sec since until maxValidity =
     Section (sectionType sec)
       ((content sec)\<lparr>validSince := since, validUntil := min until (now + maxValidity)\<rparr>)"

text \<open>The spec's \<open>maxValidity[sectionKind]\<close> for the five signable kinds.\<close>

fun maxValidity_of :: "MaxCacheValidity \<Rightarrow> SectionType \<Rightarrow> int" where
  "maxValidity_of maxVal AssertionSection = AssertionValidity maxVal"
| "maxValidity_of maxVal ShardSection = ShardValidity maxVal"
| "maxValidity_of maxVal ZoneSection = ZoneValidity maxVal"
| "maxValidity_of maxVal AddressAssertionSection = AddressAssertionValidity maxVal"
| "maxValidity_of maxVal AddressZoneSection = AddressZoneValidity maxVal"
| "maxValidity_of maxVal _ = 0"

definition signable :: "SectionType \<Rightarrow> bool" where
  "signable t = (t = AssertionSection \<or> t = ShardSection \<or> t = ZoneSection \<or>
     t = AddressAssertionSection \<or> t = AddressZoneSection)"

definition sec0 :: "Validity MessageSection" where
  "sec0 = Section ShardSection \<lparr>validSince = 0, validUntil = 0\<rparr>"

definition maxVal0 :: MaxCacheValidity where
  "maxVal0 = \<lparr>AssertionValidity = 3600, ShardValidity = 300, ZoneValidity = 10800,
     AddressAssertionValidity = 60, AddressZoneValidity = 120\<rparr>"

section \<open>Server (package rainsd): initOwnCapabilities\<close>

text \<open>\<open>strings.Join\<close>.\<close>

fun strings_Join :: "string list \<Rightarrow> string \<Rightarrow> string" where
  "strings_Join [] sep = []"
| "strings_Join [x] sep = x"
| "strings_Join (x # xs) sep = x @ sep @ strings_Join xs sep"

definition initOwnCapabilities :: "string list \<Rightarrow> string \<times> string" where
  "initOwnCapabilities capabilities =
     (let capabilityHash = ''e5365a09be554ae55b855f15264dbc837b04f5831daeb321359e18cdabab5745'';
          cs = map (\<lambda>c. c) capabilities
      in (capabilityHash, strings_Join cs '' ''))"

section \<open>Server (package rainsd): loadConfig, loadTLSCertificate and New\<close>

text \<open>
  The fields of the configuration that \<open>loadConfig\<close> and \<open>New\<close> touch. Durations are
  \<open>int64\<close> nanoseconds; \<open>*=\<close> wraps around.
\<close>

record rainsdConfig =
  RootZonePublicKeyPath :: string
  KeepAlivePeriod :: int
  TCPTimeout :: int
  TLSCertificateFile :: string
  TLSPrivateKeyFile :: string
  PrioBufferSize :: int
  NormalBufferSize :: int
  NotificationBufferSize :: int
  PrioWorkerCount :: int
  NormalWorkerCount :: int
  NotificationWorkerCount :: int
  Capabilities_cfg :: "string list"
  DelegationQueryValidity :: int
  ReapVerifyTimeout :: int
  QueryValidity :: int
  AddressQueryValidity :: int
  ReapEngineTimeout :: int
  MaxCacheValidity_cfg :: MaxCacheValidity
  ContextAuthority :: "string list"
  ZoneAuthority :: "string list"

definition zero_config :: rainsdConfig where
  "zero_config = \<lparr>RootZonePublicKeyPath = [], KeepAlivePeriod = 0, TCPTimeout = 0,
     TLSCertificateFile = [], TLSPrivateKeyFile = [], PrioBufferSize = 0, NormalBufferSize = 0,
     NotificationBufferSize = 0, PrioWorkerCount = 0, NormalWorkerCount = 0,
     NotificationWorkerCount = 0, Capabilities_cfg = [], DelegationQueryValidity = 0,
     ReapVerifyTimeout = 0, QueryValidity = 0, AddressQueryValidity = 0, ReapEngineTimeout = 0,
     MaxCacheValidity_cfg = \<lparr>AssertionValidity = 0, ShardValidity = 0, ZoneValidity = 0,
       AddressAssertionValidity = 0, AddressZoneValidity = 0\<rparr>,
     ContextAuthority = [], ZoneAuthority = []\<rparr>"

definition mul64 :: "int \<Rightarrow> int \<Rightarrow> int" where
  "mul64 a b = sint (word_of_int (a * b) :: 64 word)"

definition Second :: int where "Second = 1000000000"
definition Hour :: int where "Hour = 3600000000000"

text \<open>
  Library calls and the functions of the package that are defined in other files
  (\<open>loadRootZonePublicKey\<close>, \<open>initCaches\<close>) are parameters.
\<close>

record ('pool, 'cert, 'caches) ServerEnv =
  ioutil_ReadFile :: "string \<Rightarrow> string + bytes"
  json_Unmarshal :: "bytes \<Rightarrow> string + rainsdConfig"
  AppendCertsFromPEM :: "bytes \<Rightarrow> 'pool option"
  tls_LoadX509KeyPair :: "string \<Rightarrow> string \<Rightarrow> string + 'cert"
  zero_Certificate :: 'cert
  loadRootZonePublicKey :: "string \<Rightarrow> string option"
  initCaches :: "rainsdConfig \<Rightarrow> 'caches"

definition loadConfig :: "('pool, 'cert, 'caches) ServerEnv \<Rightarrow> string \<Rightarrow> rainsdConfig \<times> string option" where
  "loadConfig E configPath =
     (case ioutil_ReadFile E configPath of
        Inl err \<Rightarrow> (zero_config, Some err)
      | Inr file \<Rightarrow>
          (case json_Unmarshal E file of
             Inl err \<Rightarrow> (zero_config, Some err)
           | Inr config \<Rightarrow>
               (config\<lparr>
                  KeepAlivePeriod := mul64 (KeepAlivePeriod config) Second,
                  TCPTimeout := mul64 (TCPTimeout config) Second,
                  DelegationQueryValidity := mul64 (DelegationQueryValidity config) Second,
                  ReapVerifyTimeout := mul64 (ReapVerifyTimeout config) Second,
                  QueryValidity := mul64 (QueryValidity config) Second,
                  AddressQueryValidity := mul64 (AddressQueryValidity config) Second,
                  ReapEngineTimeout := mul64 (ReapEngineTimeout config) Second,
                  MaxCacheValidity_cfg := (MaxCacheValidity_cfg config)\<lparr>
                    AddressAssertionValidity :=
                      mul64 (AddressAssertionValidity (MaxCacheValidity_cfg config)) Hour,
                    AddressZoneValidity :=
                      mul64 (AddressZoneValidity (MaxCacheValidity_cfg config)) Hour,
                    AssertionValidity := mul64 (AssertionValidity (MaxCacheValidity_cfg config)) Hour,
                    ShardValidity := mul64 (ShardValidity (MaxCacheValidity_cfg config)) Hour,
                    ZoneValidity := mul64 (ZoneValidity (MaxCacheValidity_cfg config)) Hour\<rparr>\<rparr>,
                None)))"

definition loadTLSCertificate ::
  "('pool, 'cert, 'caches) ServerEnv \<Rightarrow> string \<Rightarrow> string \<Rightarrow> 'pool option \<times> 'cert \<times> string option" where
  "loadTLSCertificate E certPath TLSPrivateKeyPath =
     (case ioutil_ReadFile E certPath of
        Inl err \<Rightarrow> (None, zero_Certificate E, Some err)
      | Inr file \<Rightarrow>
          (case AppendCertsFromPEM E file of
             None \<Rightarrow> (None, zero_Certificate E, Some ''failed to parse root certificate'')
           | Some pool \<Rightarrow>
               (case tls_LoadX509KeyPair E certPath TLSPrivateKeyPath of
                  Inl err \<Rightarrow> (None, zero_Certificate E, Some err)
                | Inr cert \<Rightarrow> (Some pool, cert, None))))"

record InputQueues =
  Prio :: int
  Normal :: int
  Notify :: int
  PrioW :: int
  NormalW :: int
  NotifyW :: int

record ('pool, 'cert, 'caches) Server =
  config :: rainsdConfig
  authority :: "string \<times> string \<rightharpoonup> bool"
  certPool :: "'pool option"
  tlsCert :: 'cert
  capabilityHash :: string
  capabilityList :: string
  shutdown :: "int option"
  queues :: InputQueues
  caches :: "'caches option"

text \<open>
  A pointer to a struct is \<open>None\<close> (nil) or \<open>Some\<close> of the struct. Reading or writing
  a field through a nil pointer panics.
\<close>

definition field_write :: "'s option \<Rightarrow> ('s \<Rightarrow> 's) \<Rightarrow> 's option go" where
  "field_write p f = (case p of None \<Rightarrow> Panic NilPointerDereference | Some s \<Rightarrow> Return (Some (f s)))"

definition field_read :: "'s option \<Rightarrow> ('s \<Rightarrow> 'a) \<Rightarrow> 'a go" where
  "field_read p f = (case p of None \<Rightarrow> Panic NilPointerDereference | Some s \<Rightarrow> Return (f s))"

text \<open>The loop over \<open>ContextAuthority\<close>, which indexes \<open>ZoneAuthority\<close> alongside.\<close>

fun authority_loop ::
  "string list \<Rightarrow> string list \<Rightarrow> nat \<Rightarrow> (string \<times> string \<rightharpoonup> bool) \<Rightarrow> (string \<times> string \<rightharpoonup> bool) go" where
  "authority_loop [] zs i m = Return m"
| "authority_loop (context # rest) zs i m =
     (if i < length zs then authority_loop rest zs (Suc i) (m((zs ! i, context) \<mapsto> True))
      else Panic IndexOutOfRange)"

text \<open>\<open>make(chan T, n)\<close> panics on a negative size; the channel is kept as its capacity.\<close>

definition make_chan :: "int \<Rightarrow> int go" where
  "make_chan n = (if n < 0 then Panic MakeChanSizeOutOfRange else Return n)"

text \<open>
  \<open>New\<close> has the named results \<open>server *Server\<close> and \<open>err error\<close>. Named results start
  at their zero values, so \<open>server\<close> is nil on entry, and no statement of the body
  assigns it. The first two statements only install the log handler and are left out.
  In \<open>server.config, err = loadConfig(configPath)\<close> the call is evaluated first and the
  assignments are carried out afterwards, left to right.
\<close>

definition New ::
  "('pool, 'cert, 'caches) ServerEnv \<Rightarrow> string \<Rightarrow> int
     \<Rightarrow> (('pool, 'cert, 'caches) Server option \<times> string option) go" where
  "New E configPath logLevel =
     (let server = None;
          (cfg, err) = loadConfig E configPath
      in go_bind (field_write server (\<lambda>s. s\<lparr>config := cfg\<rparr>)) (\<lambda>server.
         if err \<noteq> None then Return (None, err)
         else
         go_bind (field_write server (\<lambda>s. s\<lparr>authority := Map.empty\<rparr>)) (\<lambda>server.
         go_bind (field_read server config) (\<lambda>c.
         go_bind (field_read server authority) (\<lambda>a.
         go_bind (authority_loop (ContextAuthority c) (ZoneAuthority c) 0 a) (\<lambda>a.
         go_bind (field_write server (\<lambda>s. s\<lparr>authority := a\<rparr>)) (\<lambda>server.
         case loadTLSCertificate E (TLSCertificateFile c) (TLSPrivateKeyFile c) of
           (pool, cert, err) \<Rightarrow>
         go_bind (field_write server (\<lambda>s. s\<lparr>certPool := pool, tlsCert := cert\<rparr>)) (\<lambda>server.
         if err \<noteq> None then Return (None, err)
         else
         case initOwnCapabilities (Capabilities_cfg c) of
           (h, l) \<Rightarrow>
         go_bind (field_write server (\<lambda>s. s\<lparr>capabilityHash := h, capabilityList := l\<rparr>)) (\<lambda>server.
         case loadRootZonePublicKey E (RootZonePublicKeyPath c) of
           Some err \<Rightarrow> Return (None, Some err)
         | None \<Rightarrow>
         go_bind (field_write server (\<lambda>s. s\<lparr>shutdown := Some 0\<rparr>)) (\<lambda>server.
         go_bind (make_chan (PrioBufferSize c)) (\<lambda>prio.
         go_bind (make_chan (NormalBufferSize c)) (\<lambda>normal.
         go_bind (make_chan (NotificationBufferSize c)) (\<lambda>notify.
         go_bind (make_chan (PrioWorkerCount c)) (\<lambda>prioW.
         go_bind (make_chan (NormalWorkerCount c)) (\<lambda>normalW.
         go_bind (make_chan (NotificationWorkerCount c)) (\<lambda>notifyW.
         go_bind (field_write server (\<lambda>s. s\<lparr>queues := \<lparr>Prio = prio, Normal = normal,
             Notify = notify, PrioW = prioW, NormalW = normalW, NotifyW = notifyW\<rparr>\<rparr>)) (\<lambda>server.
         go_bind (field_write server (\<lambda>s. s\<lparr>caches := Some (initCaches E c)\<rparr>)) (\<lambda>server.
         case loadRootZonePublicKey E (RootZonePublicKeyPath c) of
           Some err \<Rightarrow> Return (None, Some err)
         | None \<Rightarrow> Return (server, None)))))))))))))))))))"

section \<open>Switchboard (package rainsd): createConnection and sendTo\<close>

datatype NetworkAddrType = TCP | OtherNetwork

record Info =
  Type :: NetworkAddrType
  TCPAddr :: string

record Conn =
  connId :: nat
  RemoteAddr :: Info

text \<open>
  The errors \<open>sendTo\<close> returns: the error of the TLS dial, "No matching type found
  for Connection info", and "Was not able to send the mesage. No retries left".
\<close>

datatype send_error = DialError string | NoMatchingType | NoRetriesLeft

text \<open>
  The network is outside the program: the outcome of the \<open>n\<close>-th TLS dial and whether
  a connection takes a marshalled message are parameters, as is the package variable
  \<open>capabilityHash\<close>.
\<close>

record ('p, 'sk, 'pk) Network =
  tls_Dial :: "nat \<Rightarrow> Info \<Rightarrow> string + Conn"
  Marshal :: "Conn \<Rightarrow> ('p, 'sk, 'pk) RainsMessage \<Rightarrow> string option"
  ownCapabilityHash :: string

text \<open>
  The state \<open>sendTo\<close> acts on: the connection cache, the number of dials made so far,
  and the durations handed to \<open>time.Sleep\<close>, in order, as \<open>int64\<close> nanoseconds.
  The three channels and the pending-key cache are only handed on to the goroutine that
  reads from a new connection; they and the goroutine are left out.
\<close>

record switchboard =
  connCache :: "Info \<Rightarrow> Conn list"
  dials :: nat
  sleeps :: "64 word list"

text \<open>
  Modelled from the spec: the connection cache (\<open>connCache\<close>) is not in the sources
  under verification. The spec: "Connection cache. Peer endpoint \<rightarrow> set of open streams.
  Closing any stream removes it from the set." \<open>GetConnection\<close> returns the streams of
  the peer and whether there is any; \<open>AddConnection\<close> files a stream under its remote
  address.
\<close>

definition GetConnection :: "(Info \<Rightarrow> Conn list) \<Rightarrow> Info \<Rightarrow> Conn list \<times> bool" where
  "GetConnection cache receiver = (cache receiver, cache receiver \<noteq> [])"

definition AddConnection :: "(Info \<Rightarrow> Conn list) \<Rightarrow> Conn \<Rightarrow> (Info \<Rightarrow> Conn list)" where
  "AddConnection cache conn = cache(RemoteAddr conn := cache (RemoteAddr conn) @ [conn])"

definition CloseAndRemoveConnection :: "(Info \<Rightarrow> Conn list) \<Rightarrow> Conn \<Rightarrow> (Info \<Rightarrow> Conn list)" where
  "CloseAndRemoveConnection cache conn =
     cache(RemoteAddr conn := removeAll conn (cache (RemoteAddr conn)))"

definition createConnection ::
  "('p, 'sk, 'pk) Network \<Rightarrow> Info \<Rightarrow> switchboard \<Rightarrow> (send_error + Conn) \<times> switchboard" where
  "createConnection N receiver st =
     (case Type receiver of
        TCP \<Rightarrow>
          (case tls_Dial N (dials st) receiver of
             Inl err \<Rightarrow> (Inl (DialError err), st\<lparr>dials := Suc (dials st)\<rparr>)
           | Inr conn \<Rightarrow> (Inr conn, st\<lparr>dials := Suc (dials st)\<rparr>))
      | _ \<Rightarrow> (Inl NoMatchingType, st))"

text \<open>
  The first part of \<open>sendTo\<close>: the connections to write to. Without a cached connection
  one is dialled; when that fails \<open>sendTo\<close> returns the error at once (\<open>Inl\<close>).
\<close>

definition connections ::
  "('p, 'sk, 'pk) Network \<Rightarrow> ('p, 'sk, 'pk) RainsMessage \<Rightarrow> Info \<Rightarrow> switchboard
     \<Rightarrow> (send_error \<times> switchboard) + (('p, 'sk, 'pk) RainsMessage \<times> Conn list \<times> switchboard)" where
  "connections N msg receiver st =
     (let (conns, ok) = GetConnection (connCache st) receiver
      in if \<not> ok then
           (case createConnection N receiver st of
              (Inl err, st1) \<Rightarrow> Inl (err, st1)
            | (Inr conn, st1) \<Rightarrow>
                Inr (msg\<lparr>Capabilities := [ownCapabilityHash N]\<rparr>, conns @ [conn],
                     st1\<lparr>connCache := AddConnection (connCache st1) conn\<rparr>))
         else Inr (msg, conns, st))"

text \<open>The loop over the connections: the first write that succeeds ends it.\<close>

fun write_first ::
  "('p, 'sk, 'pk) Network \<Rightarrow> ('p, 'sk, 'pk) RainsMessage \<Rightarrow> Conn list \<Rightarrow> switchboard
     \<Rightarrow> bool \<times> switchboard" where
  "write_first N msg [] st = (False, st)"
| "write_first N msg (conn # conns) st =
     (case Marshal N conn msg of
        Some err \<Rightarrow>
          write_first N msg conns (st\<lparr>connCache := CloseAndRemoveConnection (connCache st) conn\<rparr>)
      | None \<Rightarrow> (True, st))"

definition Millisecond :: "64 word" where "Millisecond = 1000000"

text \<open>
  \<open>sendTo\<close>. \<open>backoffMilliSeconds\<close> is a machine integer: doubling it and converting it
  to nanoseconds wrap around. \<open>retries\<close> is only compared with zero and decremented
  while positive.
\<close>

function sendTo ::
  "('p, 'sk, 'pk) Network \<Rightarrow> ('p, 'sk, 'pk) RainsMessage \<Rightarrow> Info \<Rightarrow> int \<Rightarrow> 64 word
     \<Rightarrow> switchboard \<Rightarrow> send_error option \<times> switchboard" where
  "sendTo N msg receiver retries backoffMilliSeconds st =
     (case connections N msg receiver st of
        Inl (err, st1) \<Rightarrow> (Some err, st1)
      | Inr (msg1, conns, st1) \<Rightarrow>
          (case write_first N msg1 conns st1 of
             (True, st2) \<Rightarrow> (None, st2)
           | (False, st2) \<Rightarrow>
               if retries > 0 then
                 sendTo N msg1 receiver (retries - 1) (2 * backoffMilliSeconds)
                   (st2\<lparr>sleeps := sleeps st2 @ [backoffMilliSeconds * Millisecond]\<rparr>)
               else (Some NoRetriesLeft, st2)))"
  by pat_completeness auto
termination
  by (relation "measure (\<lambda>(N, msg, receiver, retries, backoff, st). nat retries)") auto

definition total_sleep :: "switchboard \<Rightarrow> int" where
  "total_sleep st = sum_list (map (\<lambda>d. max 0 (sint d)) (sleeps st))"

definition refusing_network :: "(int, int, int) Network" where
  "refusing_network = \<lparr>tls_Dial = (\<lambda>n receiver. Inl ''dial tcp: connection refused''),
     Marshal = (\<lambda>conn msg. Some ''write: broken pipe''),
     ownCapabilityHash = ''e5365a09be554ae55b855f15264dbc837b04f5831daeb321359e18cdabab5745''\<rparr>"

definition peer0 :: Info where
  "peer0 = \<lparr>Type = TCP, TCPAddr = ''127.0.0.1:5022''\<rparr>"

definition idle :: switchboard where
  "idle = \<lparr>connCache = (\<lambda>receiver. []), dials = 0, sleeps = []\<rparr>"

definition conn1 :: Conn where
  "conn1 = \<lparr>connId = 1, RemoteAddr = peer0\<rparr>"

definition stale :: switchboard where
  "stale = \<lparr>connCache = (\<lambda>receiver. if receiver = peer0 then [conn1] else []), dials = 0, sleeps = []\<rparr>"

definition broken_network :: "(int, int, int) Network" where
  "broken_network = \<lparr>tls_Dial = (\<lambda>n receiver. Inr \<lparr>connId = n, RemoteAddr = receiver\<rparr>),
     Marshal = (\<lambda>conn msg. Some ''write: broken pipe''),
     ownCapabilityHash = ''e5365a09be554ae55b855f15264dbc837b04f5831daeb321359e18cdabab5745''\<rparr>"

section \<open>Theorems: signatures\<close>

lemma keypair_matches_cases:
  assumes "keypair_matches C alg sk pk"
  obtains s p where "alg = Ed25519" "sk = Ed25519PrivateKey s" "pk = Ed25519PublicKey p"
      "\<forall>msg. ed25519_Verify C p msg (ed25519_Sign C s msg)"
  | s p where "alg = Ecdsa256 \<or> alg = Ecdsa384" "sk = EcdsaPrivateKey s" "pk = EcdsaPublicKey p"
      "\<forall>rnd h r t. ecdsa_Sign C rnd s h = Inr (r, t) \<longrightarrow> ecdsa_Verify C p h r t"
  using assms by (cases "(C, alg, sk, pk)" rule: keypair_matches.cases) auto

lemma GetSignatureMetaData_Data [simp]:
  "GetSignatureMetaData C (sig\<lparr>Data := d\<rparr>) = GetSignatureMetaData C sig"
  by (simp add: GetSignatureMetaData_def)

lemma Signature_String_returns:
  "Data sig = Nil \<or> (\<exists>b. Data sig = Bytes b) \<or> Algorithm sig \<noteq> Ed25519 \<Longrightarrow>
   \<exists>s. Signature_String C sig = Return s"
  by (auto simp: Signature_String_def)

text \<open>
  Claim C1. The claim asks that signing and then verifying returns true for every
  section and every key pair that matches the signature's algorithm. With the algorithm
  Ed25519, an Ed25519 private key and a signature value whose \<open>Data\<close> holds a
  \<open>[]*big.Int\<close>, \<open>SignData\<close> panics before it signs: \<open>log.Debug\<close> formats the
  signature with \<open>Signature.String\<close>, whose assertion \<open>sig.Data.([]byte)\<close> is unchecked.
\<close>

theorem SignData_Ed25519_stale_Data_panics:
  "SignData (C\<lparr>log_Debug := True\<rparr>) rnd
     \<lparr>KeySpace = 0, Algorithm = Ed25519, ValidSince = 0, ValidUntil = 0, Data = BigInts [1, 2]\<rparr>
     (Ed25519PrivateKey k) enc = Panic TypeAssertionFailed"
  by (simp add: SignData_def Signature_String_def Let_def)

text \<open>
  Apart from that, the round trip holds. When the signature value can be logged (its
  \<open>Data\<close> is nil or a byte slice, or the algorithm is not Ed25519, or the handler drops
  records of level Debug) and the key pair matches the algorithm, \<open>SignData\<close> returns
  without a panic; when it returns no error, \<open>VerifySignature\<close> of the signature it filled
  in, with the public key and the same encoding, returns true. With Ed25519 it never
  returns an error; with ECDSA the only error is the one \<open>ecdsa.Sign\<close> itself returns.
\<close>

lemma sign_then_verify:
  assumes "keypair_matches C (Algorithm sig) sk pk"
    and "Data sig = Nil \<or> (\<exists>b. Data sig = Bytes b) \<or> Algorithm sig \<noteq> Ed25519 \<or> \<not> log_Debug C"
  shows "\<exists>err sig'. SignData C rnd sig sk enc = Return (err, sig') \<and>
     (err = None \<longrightarrow> VerifySignature C sig' pk enc = Return True) \<and>
     (Algorithm sig = Ed25519 \<longrightarrow> err = None)"
  using assms(1)
proof (cases rule: keypair_matches_cases)
  case (1 s p)
  have "\<exists>l. (if log_Debug C then Signature_String C sig else Return []) = Return l"
  proof (cases "log_Debug C")
    case True
    with assms(2) 1(1) have "Data sig = Nil \<or> (\<exists>b. Data sig = Bytes b) \<or> Algorithm sig \<noteq> Ed25519"
      by blast
    from Signature_String_returns [OF this] True show ?thesis by simp
  next
    case False
    then show ?thesis by simp
  qed
  then obtain l where l: "(if log_Debug C then Signature_String C sig else Return []) = Return l"
    by blast
  from 1 show ?thesis
    by (simp add: SignData_def VerifySignature_def Let_def l)
next
  case (2 s p)
  from 2(1) show ?thesis
  proof
    assume a: "Algorithm sig = Ecdsa256"
    show ?thesis
    proof (cases "ecdsa_Sign C rnd s (sha256_Sum256 C (enc @ GetSignatureMetaData C sig))")
      case (Inl e)
      with 2 a show ?thesis by (simp add: SignData_def Let_def)
    next
      case (Inr rs)
      obtain r t where rs: "rs = (r, t)" by (cases rs)
      from 2 a Inr rs show ?thesis
        by (simp add: SignData_def VerifySignature_def Let_def)
    qed
  next
    assume a: "Algorithm sig = Ecdsa384"
    show ?thesis
    proof (cases "ecdsa_Sign C rnd s (sha512_Sum384 C (enc @ GetSignatureMetaData C sig))")
      case (Inl e)
      with 2 a show ?thesis by (simp add: SignData_def Let_def)
    next
      case (Inr rs)
      obtain r t where rs: "rs = (r, t)" by (cases rs)
      from 2 a Inr rs show ?thesis
        by (simp add: SignData_def VerifySignature_def Let_def)
    qed
  qed
qed

lemma sign_then_verify_example:
  "keypair_matches toy_crypto (Algorithm sig0) (Ed25519PrivateKey ''k'') (Ed25519PublicKey ''k'') \<and>
   (\<exists>sig'. SignData toy_crypto 7 sig0 (Ed25519PrivateKey ''k'') ''zone'' = Return (None, sig') \<and>
      VerifySignature toy_crypto sig' (Ed25519PublicKey ''k'') ''zone'' = Return True) \<and>
   keypair_matches toy_crypto (Algorithm sig1) (EcdsaPrivateKey 5) (EcdsaPublicKey 5) \<and>
   (\<exists>sig'. SignData toy_crypto 7 sig1 (EcdsaPrivateKey 5) ''zone'' = Return (None, sig') \<and>
      VerifySignature toy_crypto sig' (EcdsaPublicKey 5) ''zone'' = Return True) \<and>
   SignData toy_crypto 7 stale_sig (Ed25519PrivateKey ''k'') ''zone'' = Panic TypeAssertionFailed"
proof -
  have h0: "keypair_matches toy_crypto (Algorithm sig0) (Ed25519PrivateKey ''k'') (Ed25519PublicKey ''k'')"
    by (simp add: sig0_def toy_crypto_def)
  have a0: "Algorithm sig0 = Ed25519" "Data sig0 = Nil" by (simp_all add: sig0_def)
  from sign_then_verify [OF h0, of 7 "''zone''"] a0
  have r0: "\<exists>sig'. SignData toy_crypto 7 sig0 (Ed25519PrivateKey ''k'') ''zone'' = Return (None, sig') \<and>
      VerifySignature toy_crypto sig' (Ed25519PublicKey ''k'') ''zone'' = Return True"
    by blast
  have h1: "keypair_matches toy_crypto (Algorithm sig1) (EcdsaPrivateKey 5) (EcdsaPublicKey 5)"
    by (simp add: sig1_def toy_crypto_def)
  have d1: "Data sig1 = Nil" by (simp add: sig1_def)
  have "\<exists>sig'. SignData toy_crypto 7 sig1 (EcdsaPrivateKey 5) ''zone'' = Return (None, sig')"
    by (simp add: SignData_def sig1_def toy_crypto_def Let_def)
  with sign_then_verify [OF h1, of 7 "''zone''"] d1
  have r1: "\<exists>sig'. SignData toy_crypto 7 sig1 (EcdsaPrivateKey 5) ''zone'' = Return (None, sig') \<and>
      VerifySignature toy_crypto sig' (EcdsaPublicKey 5) ''zone'' = Return True"
    by auto
  have p: "SignData toy_crypto 7 stale_sig (Ed25519PrivateKey ''k'') ''zone'' = Panic TypeAssertionFailed"
    by (simp add: SignData_def Signature_String_def stale_sig_def toy_crypto_def Let_def)
  from h0 r0 h1 r1 p show ?thesis by blast
qed

text \<open>
  Claim C6. The claim asks for \<open>false\<close>, never a panic, when the type of \<open>sig.Data\<close> does
  not match the algorithm. With algorithm Ed25519, an Ed25519 public key and a
  \<open>[]*big.Int\<close> as \<open>Data\<close>, the unchecked assertion \<open>sig.Data.([]byte)\<close> panics.
\<close>

theorem VerifySignature_Ed25519_wrong_Data_panics:
  "VerifySignature C
     \<lparr>KeySpace = 0, Algorithm = Ed25519, ValidSince = 0, ValidUntil = 0, Data = BigInts [1, 2]\<rparr>
     (Ed25519PublicKey k) enc = Panic TypeAssertionFailed"
  by (simp add: VerifySignature_def Let_def)

text \<open>
  The other cases the claim lists do return \<open>false\<close>: nil \<open>Data\<close>, a nil key, an
  unsupported algorithm, a key of another type, and with ECDSA a \<open>Data\<close> that is not a
  slice of two big integers.
\<close>

lemma VerifySignature_nil_false:
  "Data sig = Nil \<or> pk = Nil \<Longrightarrow> VerifySignature C sig pk enc = Return False"
  by (auto simp: VerifySignature_def)

lemma VerifySignature_unsupported_false:
  "Algorithm sig = Ed448 \<or> Algorithm sig = OtherAlgorithm n \<Longrightarrow>
   VerifySignature C sig pk enc = Return False"
  by (auto simp: VerifySignature_def Let_def)

lemma VerifySignature_key_mismatch_false:
  "Algorithm sig = Ed25519 \<Longrightarrow> (\<forall>k. pk \<noteq> Ed25519PublicKey k) \<Longrightarrow>
   VerifySignature C sig pk enc = Return False"
  "Algorithm sig = Ecdsa256 \<or> Algorithm sig = Ecdsa384 \<Longrightarrow> (\<forall>k. pk \<noteq> EcdsaPublicKey k) \<Longrightarrow>
   VerifySignature C sig pk enc = Return False"
  by (cases pk; auto simp: VerifySignature_def Let_def)+

lemma VerifySignature_ecdsa_Data_mismatch_false:
  "Algorithm sig = Ecdsa256 \<or> Algorithm sig = Ecdsa384 \<Longrightarrow> (\<forall>r s. Data sig \<noteq> BigInts [r, s]) \<Longrightarrow>
   VerifySignature C sig pk enc = Return False"
  by (auto simp: VerifySignature_def Let_def split: GoValue.splits list.splits)

section \<open>Theorems: sorting a message\<close>

lemma of_type_Nil [simp]: "of_type M t [] = []"
  by (simp add: of_type_def)

lemma of_type_Cons:
  "of_type M t (s # xs) =
     (if sectionType s = t then Sort_section M t (content s) # of_type M t xs else of_type M t xs)"
  by (simp add: of_type_def)

lemma distribute_slices:
  "assertions (distribute M xs v) = assertions v @ of_type M AssertionSection xs"
  "shards (distribute M xs v) = shards v @ of_type M ShardSection xs"
  "zones (distribute M xs v) = zones v @ of_type M ZoneSection xs"
  "queries (distribute M xs v) = queries v @ of_type M QuerySection xs"
  "addressAssertions (distribute M xs v) = addressAssertions v @ of_type M AddressAssertionSection xs"
  "addressZones (distribute M xs v) = addressZones v @ of_type M AddressZoneSection xs"
  "addressQueries (distribute M xs v) = addressQueries v @ of_type M AddressQuerySection xs"
  "notifications (distribute M xs v) = notifications v @ of_type M NotificationSection xs"
  by (induction xs arbitrary: v; simp add: of_type_Cons Let_def split: SectionType.split)+

lemma Sort_eq: "Sort M m = m\<lparr>Content := sorted_content M (Content m)\<rparr>"
  by (simp add: Sort_def Let_def distribute_slices nil_slices_def group_of_def sorted_content_def)

lemma in_group_of: "s \<in> set (group_of M t xs) \<Longrightarrow> sectionType s = t"
  by (auto simp: group_of_def)

lemma Section_of_type:
  "map (Section t) (of_type M t xs) = map (sorted_section M) (filter (\<lambda>s. sectionType s = t) xs)"
  by (induction xs) (auto simp: of_type_Cons sorted_section_def)

lemma mset_group_of:
  assumes "sort_Slice_contract (sort_Slice M)"
  shows "mset (group_of M t xs) = mset (map (sorted_section M) (filter (\<lambda>s. sectionType s = t) xs))"
proof -
  have "mset (sort_Slice M (less_of M t) (of_type M t xs)) = mset (of_type M t xs)"
    using assms by (simp add: sort_Slice_contract_def)
  then have "mset (group_of M t xs) = mset (map (Section t) (of_type M t xs))"
    by (simp add: group_of_def)
  then show ?thesis by (simp add: Section_of_type)
qed

lemma mset_by_type:
  "image_mset f {#x \<in># A. sectionType x = AddressQuerySection#} +
   (image_mset f {#x \<in># A. sectionType x = AddressZoneSection#} +
   (image_mset f {#x \<in># A. sectionType x = AddressAssertionSection#} +
   (image_mset f {#x \<in># A. sectionType x = AssertionSection#} +
   (image_mset f {#x \<in># A. sectionType x = ShardSection#} +
   (image_mset f {#x \<in># A. sectionType x = ZoneSection#} +
   (image_mset f {#x \<in># A. sectionType x = QuerySection#} +
    image_mset f {#x \<in># A. sectionType x = NotificationSection#})))))) =
   image_mset f {#x \<in># A. sectionType x \<noteq> UnsupportedSection#}"
proof (induction A)
  case empty
  show ?case by simp
next
  case (add s A)
  show ?case by (cases "sectionType s") (simp_all add: add.IH [symmetric])
qed

lemma mset_Content_Sort:
  assumes "sort_Slice_contract (sort_Slice M)"
  shows "mset (Content (Sort M m)) =
      mset (map (sorted_section M) (filter (\<lambda>s. sectionType s \<noteq> UnsupportedSection) (Content m)))"
  by (simp add: Sort_eq sorted_content_def mset_group_of [OF assms] mset_by_type)

text \<open>
  Claim C9. \<open>Sort\<close> neither adds, drops nor duplicates a section of the eight known
  types: the sections of the result are, as a multiset, the sections of the input of a
  known type, each after its own in-place \<open>Sort()\<close>; sections of any other type are
  left out. For a message whose sections are all of known types the result is hence a
  permutation of the input's sections and has the same length.
\<close>

theorem Sort_permutation:
  assumes "sort_Slice_contract (sort_Slice M)"
  shows "mset (Content (Sort M m)) =
           mset (map (sorted_section M) (filter (\<lambda>s. sectionType s \<noteq> UnsupportedSection) (Content m))) \<and>
         ((\<forall>s \<in> set (Content m). sectionType s \<noteq> UnsupportedSection) \<longrightarrow>
            mset (Content (Sort M m)) = mset (map (sorted_section M) (Content m)) \<and>
            length (Content (Sort M m)) = length (Content m))"
proof -
  have a: "mset (Content (Sort M m)) =
      mset (map (sorted_section M) (filter (\<lambda>s. sectionType s \<noteq> UnsupportedSection) (Content m)))"
    by (simp add: Sort_eq sorted_content_def mset_group_of [OF assms] mset_by_type)
  have b: "mset (Content (Sort M m)) = mset (map (sorted_section M) (Content m)) \<and>
           length (Content (Sort M m)) = length (Content m)"
    if h: "\<forall>s \<in> set (Content m). sectionType s \<noteq> UnsupportedSection"
  proof -
    from h have "filter (\<lambda>s. sectionType s \<noteq> UnsupportedSection) (Content m) = Content m"
      by (simp add: filter_id_conv)
    with a have e: "mset (Content (Sort M m)) = mset (map (sorted_section M) (Content m))"
      by simp
    from mset_eq_length [OF e] e show ?thesis by simp
  qed
  from a b show ?thesis by blast
qed

lemma comparator_strict_weak_order:
  assumes "comparator cmp"
  shows "strict_weak_order (\<lambda>a b. cmp a b < 0)"
proof -
  from assms have refl: "\<And>a. cmp a a = 0"
    and flip: "\<And>a b. (cmp a b < 0) = (0 < cmp b a)"
    and trans: "\<And>a b c. cmp a b \<le> 0 \<Longrightarrow> cmp b c \<le> 0 \<Longrightarrow> cmp a c \<le> 0"
    unfolding comparator_def by blast+
  have le: "(\<not> cmp a b < 0) = (cmp b a \<le> 0)" for a b
    using flip [of b a] flip [of a b] by linarith
  have t1: "cmp a c < 0" if "cmp a b < 0" "cmp b c < 0" for a b c
  proof (rule ccontr)
    assume "\<not> cmp a c < 0"
    then have "cmp c a \<le> 0" by (simp add: le)
    moreover from that have "cmp a b \<le> 0" by simp
    ultimately have "cmp c b \<le> 0" by (rule trans)
    with that(2) flip [of b c] show False by simp
  qed
  have t2: "\<not> cmp a c < 0" if "\<not> cmp a b < 0" "\<not> cmp b c < 0" for a b c
  proof -
    from that have "cmp c b \<le> 0" "cmp b a \<le> 0" by (simp_all add: le)
    then have "cmp c a \<le> 0" by (rule trans)
    then show ?thesis by (simp add: le)
  qed
  show ?thesis
    unfolding strict_weak_order_def
  proof (intro conjI allI impI)
    fix a
    show "\<not> cmp a a < 0" by (simp add: refl)
  next
    fix a b c
    assume "cmp a b < 0 \<and> cmp b c < 0"
    then show "cmp a c < 0" using t1 by blast
  next
    fix a b c
    assume "\<not> cmp a b < 0 \<and> \<not> cmp b c < 0"
    then show "\<not> cmp a c < 0" using t2 by blast
  qed
qed

lemma comparator_not_less:
  assumes "comparator cmp"
  shows "(\<not> cmp b a < 0) = (cmp a b \<le> 0)"
proof -
  from assms have flip: "\<And>a b. (cmp a b < 0) = (0 < cmp b a)"
    unfolding comparator_def by blast
  show ?thesis using flip [of b a] flip [of a b] by linarith
qed

lemma sorted_group_contents:
  assumes "sort_Slice_contract (sort_Slice M)" and "comparator (CompareTo M t)"
  shows "sorted_wrt (\<lambda>a b. CompareTo M t a b \<le> 0) (sort_Slice M (less_of M t) xs)"
proof -
  have eq: "less_of M t = (\<lambda>a b. CompareTo M t a b < 0)"
    by (simp add: less_of_def fun_eq_iff)
  have "strict_weak_order (less_of M t)"
    unfolding eq by (rule comparator_strict_weak_order [OF assms(2)])
  with assms(1) have "sorted_wrt (\<lambda>a b. \<not> less_of M t b a) (sort_Slice M (less_of M t) xs)"
    unfolding sort_Slice_contract_def by blast
  then show ?thesis
    by (simp add: less_of_def comparator_not_less [OF assms(2)])
qed

lemma sorted_wrt_all: "(\<And>a b. a \<in> set xs \<Longrightarrow> b \<in> set xs \<Longrightarrow> P a b) \<Longrightarrow> sorted_wrt P xs"
  by (induction xs) auto

lemma sorted_wrt_concat_map:
  assumes "\<And>t. t \<in> set ts \<Longrightarrow> sorted_wrt P (g t)"
    and "sorted_wrt (\<lambda>t t'. \<forall>a \<in> set (g t). \<forall>b \<in> set (g t'). P a b) ts"
  shows "sorted_wrt P (concat (map g ts))"
  using assms by (induction ts) (auto simp: sorted_wrt_append)

lemma sorted_content_concat:
  "sorted_content M xs = concat (map (\<lambda>t. group_of M t xs) kind_order)"
  by (simp add: sorted_content_def kind_order_def)

lemma group_of_rank_cross:
  assumes "kind_rank t \<le> kind_rank t'" "a \<in> set (group_of M t xs)" "b \<in> set (group_of M t' xs)"
  shows "kind_rank (sectionType a) \<le> kind_rank (sectionType b)"
  using assms(1) in_group_of [OF assms(2)] in_group_of [OF assms(3)] by simp

lemma group_of_rank_sorted:
  "sorted_wrt (\<lambda>a b. kind_rank (sectionType a) \<le> kind_rank (sectionType b)) (group_of M t xs)"
  by (rule sorted_wrt_all) (rule group_of_rank_cross [of t t], simp)

lemma group_of_type_cross:
  assumes "t \<noteq> t'" "a \<in> set (group_of M t xs)" "b \<in> set (group_of M t' xs)"
  shows "sectionType a \<noteq> sectionType b"
  using assms(1) in_group_of [OF assms(2)] in_group_of [OF assms(3)] by simp

lemma kind_order_ranked: "sorted_wrt (\<lambda>t t'. kind_rank t \<le> kind_rank t') kind_order"
  by (simp add: kind_order_def)

lemma kind_order_distinct: "sorted_wrt (\<lambda>t t'. t \<noteq> t') kind_order"
  by (simp add: kind_order_def)

lemma group_of_sorted:
  assumes "sort_Slice_contract (sort_Slice M)" and "comparator (CompareTo M t)"
  shows "sorted_wrt (\<lambda>a b. sectionType a = sectionType b \<longrightarrow>
            CompareTo M (sectionType a) (content a) (content b) \<le> 0) (group_of M t xs)"
proof -
  have "sorted_wrt (\<lambda>a b. CompareTo M t (content a) (content b) \<le> 0) (group_of M t xs)"
    using sorted_group_contents [OF assms, of "of_type M t xs"]
    by (simp add: group_of_def sorted_wrt_map)
  then show ?thesis
  proof (rule sorted_wrt_mono_rel [rotated])
    fix a b
    assume "a \<in> set (group_of M t xs)"
      and "CompareTo M t (content a) (content b) \<le> 0"
    then show "sectionType a = sectionType b \<longrightarrow>
        CompareTo M (sectionType a) (content a) (content b) \<le> 0"
      using in_group_of [of a M t xs] by auto
  qed
qed

lemma sorted_content_ranked:
  "sorted_wrt (\<lambda>a b. kind_rank (sectionType a) \<le> kind_rank (sectionType b)) (sorted_content M xs)"
  unfolding sorted_content_concat
proof (rule sorted_wrt_concat_map)
  show "sorted_wrt (\<lambda>t t'. \<forall>a \<in> set (group_of M t xs). \<forall>b \<in> set (group_of M t' xs).
          kind_rank (sectionType a) \<le> kind_rank (sectionType b)) kind_order"
    by (rule sorted_wrt_mono_rel [OF _ kind_order_ranked]) (blast intro: group_of_rank_cross)
qed (rule group_of_rank_sorted)

lemma sorted_content_sorted:
  assumes "sort_Slice_contract (sort_Slice M)" and "\<And>t. comparator (CompareTo M t)"
  shows "sorted_wrt (\<lambda>a b. sectionType a = sectionType b \<longrightarrow>
           CompareTo M (sectionType a) (content a) (content b) \<le> 0) (sorted_content M xs)"
  unfolding sorted_content_concat
proof (rule sorted_wrt_concat_map)
  show "sorted_wrt (\<lambda>t t'. \<forall>a \<in> set (group_of M t xs). \<forall>b \<in> set (group_of M t' xs).
          sectionType a = sectionType b \<longrightarrow>
          CompareTo M (sectionType a) (content a) (content b) \<le> 0) kind_order"
    by (rule sorted_wrt_mono_rel [OF _ kind_order_distinct]) (blast dest: group_of_type_cross)
qed (rule group_of_sorted [OF assms])

lemma sorted_content_supported:
  "s \<in> set (sorted_content M xs) \<Longrightarrow> sectionType s \<noteq> UnsupportedSection"
  unfolding sorted_content_concat kind_order_def by (auto dest: in_group_of)

text \<open>
  Claim C3. \<open>Sort\<close> reorders \<open>m.Content\<close>: the result holds the sections of the input
  of the eight types, each after its own \<open>Sort()\<close>, as often as the input does, and no
  other section. They are grouped by type in the sequence AddressQuery, AddressZone,
  AddressAssertion, Assertion, Shard, Zone, Query, Notification (their \<open>kind_rank\<close> never
  decreases along the list), and two sections of the same type are in nondecreasing
  order of \<open>CompareTo\<close>. The library's \<open>sort.Slice\<close> and the \<open>CompareTo\<close> methods are
  taken with their contracts.
\<close>

theorem Sort_grouped_and_sorted:
  assumes "sort_Slice_contract (sort_Slice M)" and "\<forall>t. comparator (CompareTo M t)"
  shows "mset (Content (Sort M m)) =
           mset (map (sorted_section M)
             (filter (\<lambda>s. sectionType s \<noteq> UnsupportedSection) (Content m))) \<and>
         sorted_wrt (\<lambda>a b. kind_rank (sectionType a) \<le> kind_rank (sectionType b)) (Content (Sort M m)) \<and>
         sorted_wrt (\<lambda>a b. sectionType a = sectionType b \<longrightarrow>
            CompareTo M (sectionType a) (content a) (content b) \<le> 0) (Content (Sort M m)) \<and>
         (\<forall>s \<in> set (Content (Sort M m)). sectionType s \<noteq> UnsupportedSection)"
proof -
  from assms(2) have c: "\<And>t. comparator (CompareTo M t)" by blast
  have "sorted_wrt (\<lambda>a b. kind_rank (sectionType a) \<le> kind_rank (sectionType b)) (Content (Sort M m)) \<and>
         sorted_wrt (\<lambda>a b. sectionType a = sectionType b \<longrightarrow>
            CompareTo M (sectionType a) (content a) (content b) \<le> 0) (Content (Sort M m)) \<and>
         (\<forall>s \<in> set (Content (Sort M m)). sectionType s \<noteq> UnsupportedSection)"
    using sorted_content_ranked [of M "Content m"] sorted_content_sorted [OF assms(1) c, of "Content m"]
      sorted_content_supported [of _ M "Content m"]
    by (simp add: Sort_eq)
  with mset_Content_Sort [OF assms(1), of m] show ?thesis by blast
qed











lemma mset_insert_by: "mset (insert_by lt x xs) = add_mset x (mset xs)"
  by (induction xs) auto

lemma mset_insertion_sort: "mset (insertion_sort lt xs) = mset xs"
  by (induction xs) (auto simp: mset_insert_by)

lemma set_insert_by: "set (insert_by lt x xs) = insert x (set xs)"
  by (induction xs) auto

lemma sorted_insert_by:
  assumes "strict_weak_order lt"
  shows "sorted_wrt (\<lambda>a b. \<not> lt b a) xs \<Longrightarrow> sorted_wrt (\<lambda>a b. \<not> lt b a) (insert_by lt x xs)"
proof (induction xs)
  case Nil
  then show ?case by simp
next
  case (Cons y ys)
  from assms have irr: "\<And>a. \<not> lt a a" and tr: "\<And>a b c. lt a b \<Longrightarrow> lt b c \<Longrightarrow> lt a c"
    unfolding strict_weak_order_def by blast+
  show ?case
  proof (cases "lt x y")
    case True
    have "\<not> lt y x" using True tr irr by blast
    moreover have "\<not> lt z x" if "z \<in> set ys" for z
    proof
      assume "lt z x"
      then have "lt z y" using True by (rule tr)
      with Cons.prems that show False by simp
    qed
    ultimately show ?thesis using True Cons.prems by simp
  next
    case False
    with Cons show ?thesis by (auto simp: set_insert_by)
  qed
qed

lemma insertion_sort_contract: "sort_Slice_contract insertion_sort"
proof -
  have "sorted_wrt (\<lambda>a b. \<not> lt b a) (insertion_sort lt xs)" if "strict_weak_order lt"
    for lt :: "'a \<Rightarrow> 'a \<Rightarrow> bool" and xs
    by (induction xs) (simp_all add: sorted_insert_by [OF that])
  then show ?thesis
    by (simp add: sort_Slice_contract_def mset_insertion_sort)
qed

lemma int_compare_total: "total_comparator int_compare"
  by (simp add: total_comparator_def comparator_def int_compare_def)

lemma int_methods_ok:
  "sort_Slice_contract (sort_Slice int_methods)"
  "\<forall>t. total_comparator (CompareTo int_methods t)"
  "\<forall>t. comparator (CompareTo int_methods t)"
  "\<forall>t p. Sort_section int_methods t (Sort_section int_methods t p) = Sort_section int_methods t p"
  using int_compare_total
  by (simp_all add: int_methods_def insertion_sort_contract total_comparator_def)


theorem Sort_permutation_witness:
  "sort_Slice_contract (sort_Slice int_methods) \<and>
   list_all (\<lambda>s. sectionType s \<noteq> UnsupportedSection) (Content msg0) \<and>
   mset (Content (Sort int_methods msg0)) = mset (map (sorted_section int_methods) (Content msg0)) \<and>
   length (Content (Sort int_methods msg0)) = length (Content msg0)"
proof -
  have k: "\<forall>s \<in> set (Content msg0). sectionType s \<noteq> UnsupportedSection"
    by (simp add: msg0_def)
  from k Sort_permutation [OF int_methods_ok(1), of msg0] int_methods_ok(1)
  show ?thesis unfolding list_all_iff by blast
qed

theorem Sort_grouped_and_sorted_witness:
  "sort_Slice_contract (sort_Slice int_methods) \<and> (\<forall>t. comparator (CompareTo int_methods t)) \<and>
   mset (Content (Sort int_methods msg0)) =
     mset (map (sorted_section int_methods)
       (filter (\<lambda>s. sectionType s \<noteq> UnsupportedSection) (Content msg0))) \<and>
   sorted_wrt (\<lambda>a b. kind_rank (sectionType a) \<le> kind_rank (sectionType b))
     (Content (Sort int_methods msg0)) \<and>
   sorted_wrt (\<lambda>a b. sectionType a = sectionType b \<longrightarrow>
       CompareTo int_methods (sectionType a) (content a) (content b) \<le> 0)
     (Content (Sort int_methods msg0)) \<and>
   list_all (\<lambda>s. sectionType s \<noteq> UnsupportedSection) (Content (Sort int_methods msg0))"
  using Sort_grouped_and_sorted [OF int_methods_ok(1) int_methods_ok(3), of msg0]
    int_methods_ok(1) int_methods_ok(3)
  unfolding list_all_iff by blast





section \<open>Theorems: utilities and capabilities\<close>

text \<open>
  Claim C10 as stated fails for an object on which the encoder panics. The file can be
  created, \<open>Encode\<close> panics on the nil pointer, and \<open>Save\<close> returns nothing: the panic
  reaches the caller.
\<close>

theorem Save_nil_pointer_counterexample:
  "os_Create toy_fs [] ''zone.gob'' = ([(''zone.gob'', [])], Inr 0) \<and>
   Save toy_fs [] ''zone.gob'' NilPointer = Panic EncodeNilPointer"
  by (simp add: Save_def toy_fs_def)

text \<open>
  Claim C10, amended. Whenever \<open>os.Create\<close> opens the file and \<open>Encode\<close> returns, with
  an error or without, \<open>Save\<close> returns a nil error; when \<open>Encode\<close> panics, so does \<open>Save\<close>;
  when \<open>os.Create\<close> fails, \<open>Save\<close> returns that error.
\<close>

theorem Save_error_is_Create_error:
  "(\<forall>fs1 file fs2 e. os_Create X fs path = (fs1, Inr file) \<and>
        gob_Encode X fs1 file object = Return (fs2, e) \<longrightarrow>
        (\<exists>fs3. Save X fs path object = Return (fs3, None))) \<and>
   (\<forall>fs1 file p. os_Create X fs path = (fs1, Inr file) \<and>
        gob_Encode X fs1 file object = Panic p \<longrightarrow>
        Save X fs path object = Panic p) \<and>
   (\<forall>fs1 err. os_Create X fs path = (fs1, Inl err) \<longrightarrow>
        (\<exists>fs2. Save X fs path object = Return (fs2, Some err)))"
  by (auto simp: Save_def split: prod.splits)

theorem Save_error_is_Create_error_witness:
  "os_Create toy_fs [] ''zone.gob'' = ([(''zone.gob'', [])], Inr 0) \<and>
   gob_Encode toy_fs [(''zone.gob'', [])] 0 NilValue =
     Return ([(''zone.gob'', [])], Some ''gob: cannot encode nil value'') \<and>
   (\<exists>fs3. Save toy_fs [] ''zone.gob'' NilValue = Return (fs3, None)) \<and>
   os_Create toy_fs [] [] = ([], Inl ''open : no such file or directory'') \<and>
   (\<exists>fs2. Save toy_fs [] [] NilValue = Return (fs2, Some ''open : no such file or directory''))"
proof -
  have c: "os_Create toy_fs [] ''zone.gob'' = ([(''zone.gob'', [])], Inr 0)"
    by (simp add: toy_fs_def)
  have e: "gob_Encode toy_fs [(''zone.gob'', [])] 0 NilValue =
     Return ([(''zone.gob'', [])], Some ''gob: cannot encode nil value'')"
    by (simp add: toy_fs_def)
  from Save_error_is_Create_error [of toy_fs "[]" "''zone.gob''" NilValue] c e
  have s: "\<exists>fs3. Save toy_fs [] ''zone.gob'' NilValue = Return (fs3, None)" by blast
  have f: "os_Create toy_fs [] [] = ([], Inl ''open : no such file or directory'')"
    by (simp add: toy_fs_def)
  from Save_error_is_Create_error [of toy_fs "[]" "[]" NilValue] f
  have "\<exists>fs2. Save toy_fs [] [] NilValue = Return (fs2, Some ''open : no such file or directory'')"
    by blast
  with c e s f show ?thesis by blast
qed

text \<open>
  Claim C2. For a section of one of the five supported kinds, \<open>UpdateSectionValidity\<close>
  calls the section's \<open>UpdateValidity\<close> with the later of the two starts, the earlier
  of the two ends and the maximum validity configured for the kind, whatever that method
  is. With the method as the spec describes it, the section's window then begins at
  \<open>max sigValidSince pkeyValidSince\<close> and ends at \<open>min sigValidUntil pkeyValidUntil\<close>,
  capped at \<open>now\<close> plus the kind's maximum validity.
\<close>

theorem UpdateSectionValidity_window:
  assumes "signable (sectionType sec)"
  shows "UpdateSectionValidity upd (Some sec) pkeyValidSince pkeyValidUntil sigValidSince sigValidUntil maxVal =
           Some (upd sec (max sigValidSince pkeyValidSince) (min sigValidUntil pkeyValidUntil)
                   (maxValidity_of maxVal (sectionType sec))) \<and>
         (\<exists>sec'. UpdateSectionValidity (UpdateValidity now) (Some sec)
                    pkeyValidSince pkeyValidUntil sigValidSince sigValidUntil maxVal = Some sec' \<and>
            sectionType sec' = sectionType sec \<and>
            validSince (content sec') = max sigValidSince pkeyValidSince \<and>
            validUntil (content sec') =
              min (min sigValidUntil pkeyValidUntil) (now + maxValidity_of maxVal (sectionType sec)))"
proof -
  have g: "UpdateSectionValidity u (Some sec) pkeyValidSince pkeyValidUntil sigValidSince sigValidUntil maxVal =
           Some (u sec (max sigValidSince pkeyValidSince) (min sigValidUntil pkeyValidUntil)
                   (maxValidity_of maxVal (sectionType sec)))" for u
    using assms by (auto simp: signable_def UpdateSectionValidity_def max_def min_def)
  show ?thesis
    unfolding g by (simp add: UpdateValidity_def)
qed

theorem UpdateSectionValidity_window_witness:
  "signable (sectionType sec0) \<and>
   UpdateSectionValidity (UpdateValidity 500) (Some sec0) 100 900 50 2000 maxVal0 =
     Some (Section ShardSection \<lparr>validSince = 100, validUntil = 800\<rparr>)"
proof -
  have h: "signable (sectionType sec0)"
    by (simp add: signable_def sec0_def)
  from UpdateSectionValidity_window [OF h, of "UpdateValidity 500" 100 900 50 2000 maxVal0 500]
  have "UpdateSectionValidity (UpdateValidity 500) (Some sec0) 100 900 50 2000 maxVal0 =
          Some (UpdateValidity 500 sec0 100 900 (maxValidity_of maxVal0 (sectionType sec0)))"
    by simp
  with h show ?thesis
    by (simp add: UpdateValidity_def sec0_def maxVal0_def)
qed

text \<open>
  Claim C5. The claim asks for the SHA-256 hash of the sorted capability list. The
  function returns one hard-coded string for the empty list, for the list of the
  TLS-over-TCP capability and for a two-element list, which it also leaves unsorted in
  its second component.
\<close>

theorem initOwnCapabilities_constant_hash:
  "initOwnCapabilities [] =
     (''e5365a09be554ae55b855f15264dbc837b04f5831daeb321359e18cdabab5745'', '''') \<and>
   initOwnCapabilities [''urn:x-rains:tlssrv''] =
     (''e5365a09be554ae55b855f15264dbc837b04f5831daeb321359e18cdabab5745'', ''urn:x-rains:tlssrv'') \<and>
   initOwnCapabilities [''urn:b'', ''urn:a''] =
     (''e5365a09be554ae55b855f15264dbc837b04f5831daeb321359e18cdabab5745'', ''urn:b urn:a'')"
  by (simp add: initOwnCapabilities_def)

text \<open>The first component does not depend on the capabilities at all.\<close>

lemma initOwnCapabilities_fst:
  "fst (initOwnCapabilities capabilities) =
     ''e5365a09be554ae55b855f15264dbc837b04f5831daeb321359e18cdabab5745''"
  by (simp add: initOwnCapabilities_def)

section \<open>Theorems: the server constructor\<close>

text \<open>
  Claim C8. For every configuration path and log level, and whatever \<open>loadConfig\<close>
  returns, \<open>New\<close> does not return: storing the configuration through the nil result
  pointer \<open>server\<close> panics before any \<open>Server\<close> value exists.
\<close>

theorem New_always_panics: "New E configPath logLevel = Panic NilPointerDereference"
  by (simp add: New_def field_write_def split: prod.splits)

section \<open>Theorems: the switchboard\<close>

text \<open>The recursion equation of \<open>sendTo\<close> is unfolded by hand.\<close>

declare sendTo.simps [simp del]

lemma connections_sleeps:
  "connections N msg receiver st = Inl (err, st1) \<Longrightarrow> sleeps st1 = sleeps st"
  "connections N msg receiver st = Inr (msg1, conns, st1) \<Longrightarrow> sleeps st1 = sleeps st"
  by (auto simp: connections_def createConnection_def Let_def
      split: prod.splits if_splits sum.splits NetworkAddrType.splits)

lemma write_first_sleeps: "write_first N msg conns st = (b, st') \<Longrightarrow> sleeps st' = sleeps st"
  by (induction conns arbitrary: st) (auto split: option.splits)

lemma sendTo_no_retries_left_sleeps:
  "sendTo N msg receiver retries backoff st = (Some NoRetriesLeft, st') \<Longrightarrow>
   sleeps st' = sleeps st @ map (\<lambda>i. 2 ^ i * backoff * Millisecond) [0..<nat retries]"
proof (induction N msg receiver retries backoff st rule: sendTo.induct)
  case (1 N msg receiver retries backoff st)
  show ?case
  proof (cases "connections N msg receiver st")
    case (Inl a)
    then obtain err st1 where a: "connections N msg receiver st = Inl (err, st1)"
      by (cases a) auto
    with "1.prems" have "err = NoRetriesLeft"
      by (simp add: sendTo.simps [of N msg receiver retries backoff st])
    with a show ?thesis
      by (auto simp: connections_def createConnection_def Let_def
          split: prod.splits if_splits sum.splits NetworkAddrType.splits)
  next
    case (Inr b)
    then obtain msg1 conns st1 where b: "connections N msg receiver st = Inr (msg1, conns, st1)"
      by (cases b) auto
    obtain ok st2 where w: "write_first N msg1 conns st1 = (ok, st2)"
      by (cases "write_first N msg1 conns st1")
    have s2: "sleeps st2 = sleeps st"
      using write_first_sleeps [OF w] connections_sleeps(2) [OF b] by simp
    from "1.prems" b w have nok: "\<not> ok"
      by (auto simp: sendTo.simps [of N msg receiver retries backoff st])
    show ?thesis
    proof (cases "retries > 0")
      case False
      with "1.prems" b w nok s2 show ?thesis
        by (simp add: sendTo.simps [of N msg receiver retries backoff st])
    next
      case True
      let ?st3 = "st2\<lparr>sleeps := sleeps st2 @ [backoff * Millisecond]\<rparr>"
      from "1.prems" b w nok True
      have r: "sendTo N msg1 receiver (retries - 1) (2 * backoff) ?st3 = (Some NoRetriesLeft, st')"
        by (simp add: sendTo.simps [of N msg receiver retries backoff st])
      have ih: "sleeps st' = sleeps ?st3 @
          map (\<lambda>i. 2 ^ i * (2 * backoff) * Millisecond) [0..<nat (retries - 1)]"
      proof -
        from nok have okF: "ok = False" by simp
        show ?thesis by (rule "1.IH" [OF b refl refl w [symmetric] okF True r])
      qed
      from True obtain n where n: "nat retries = Suc n" "nat (retries - 1) = n"
        by (cases "nat retries") auto
      have "map (\<lambda>i. 2 ^ i * backoff * Millisecond) [0..<Suc n] =
            (backoff * Millisecond) # map (\<lambda>i. 2 ^ i * (2 * backoff) * Millisecond) [0..<n]"
        by (simp add: upt_conv_Cons map_Suc_upt [symmetric] del: upt_Suc)
      with ih n s2 show ?thesis by simp
    qed
  qed
qed


lemmas sendTo_eval = sendTo.simps connections_def createConnection_def GetConnection_def
  AddConnection_def CloseAndRemoveConnection_def Let_def Millisecond_def

lemma sendTo_refused:
  "sendTo refusing_network msg0 peer0 2 10 idle =
     (Some (DialError ''dial tcp: connection refused''), idle\<lparr>dials := 1\<rparr>)"
  by (simp add: sendTo_eval refusing_network_def peer0_def idle_def)

lemma sendTo_broken:
  "fst (sendTo broken_network msg0 peer0 2 10 idle) = Some NoRetriesLeft"
  "dials (snd (sendTo broken_network msg0 peer0 2 10 idle)) = 3"
  by (simp_all add: sendTo_eval broken_network_def peer0_def idle_def)

text \<open>
  A cached connection that has gone stale: the write fails, the connection is closed,
  \<open>sendTo\<close> sleeps once and retries; the retry finds no connection, the dial is refused,
  and the dial error comes back after a single sleep, with one retry still unused.
\<close>

lemma sendTo_stale_then_refused:
  "fst (sendTo refusing_network msg0 peer0 2 10 stale) = Some (DialError ''dial tcp: connection refused'')"
  "sleeps (snd (sendTo refusing_network msg0 peer0 2 10 stale)) = [10 * 1000000]"
  by (simp_all add: sendTo_eval refusing_network_def peer0_def stale_def conn1_def)

text \<open>
  Claim C4 as stated fails. With \<open>retries = 2\<close> and a backoff of 10 ms, no cached
  connection and a peer whose TLS dial is refused, \<open>sendTo\<close> returns the dial error at
  once: it does not sleep, does not retry, and the error is not the one for exhausted
  retries.
\<close>

theorem sendTo_dial_failure_counterexample:
  "fst (sendTo refusing_network msg0 peer0 2 10 idle) = Some (DialError ''dial tcp: connection refused'') \<and>
   fst (sendTo refusing_network msg0 peer0 2 10 idle) \<noteq> Some NoRetriesLeft \<and>
   sleeps (snd (sendTo refusing_network msg0 peer0 2 10 idle)) = [] \<and>
   \<not> (30 * 1000000 \<le> total_sleep (snd (sendTo refusing_network msg0 peer0 2 10 idle)))"
  unfolding sendTo_refused by (simp add: total_sleep_def idle_def)

text \<open>
  Claim C4, amended. When there are connections to write to (cached ones, or a newly
  dialled one) and none takes the write, a call with \<open>retries > 0\<close> sleeps
  \<open>backoffMilliSeconds\<close> and continues as the call with \<open>retries - 1\<close> and twice the
  backoff. Whenever \<open>sendTo\<close> returns the no-retries-left error it has slept exactly
  \<open>retries\<close> times, for the backoff doubled each time. When no connection is cached and
  establishing one fails, it returns that error at once and does not sleep, whatever
  \<open>retries\<close> is.
\<close>

theorem sendTo_retry_then_fail:
  "(\<forall>msg1 conns st1 st2.
      connections N msg receiver st = Inr (msg1, conns, st1) \<and>
      write_first N msg1 conns st1 = (False, st2) \<and> 0 < retries \<longrightarrow>
      sendTo N msg receiver retries backoff st =
        sendTo N msg1 receiver (retries - 1) (2 * backoff)
          (st2\<lparr>sleeps := sleeps st2 @ [backoff * Millisecond]\<rparr>)) \<and>
   (\<forall>st'. sendTo N msg receiver retries backoff st = (Some NoRetriesLeft, st') \<longrightarrow>
      sleeps st' = sleeps st @ map (\<lambda>i. 2 ^ i * backoff * Millisecond) [0..<nat retries]) \<and>
   (\<forall>err st1. connCache st receiver = [] \<and> createConnection N receiver st = (Inl err, st1) \<longrightarrow>
      sendTo N msg receiver retries backoff st = (Some err, st1) \<and> sleeps st1 = sleeps st)"
proof (intro conjI allI impI)
  fix msg1 conns st1 st2
  assume "connections N msg receiver st = Inr (msg1, conns, st1) \<and>
      write_first N msg1 conns st1 = (False, st2) \<and> 0 < retries"
  then show "sendTo N msg receiver retries backoff st =
        sendTo N msg1 receiver (retries - 1) (2 * backoff)
          (st2\<lparr>sleeps := sleeps st2 @ [backoff * Millisecond]\<rparr>)"
    by (simp add: sendTo.simps [of N msg receiver retries backoff st])
next
  fix st'
  assume "sendTo N msg receiver retries backoff st = (Some NoRetriesLeft, st')"
  then show "sleeps st' = sleeps st @ map (\<lambda>i. 2 ^ i * backoff * Millisecond) [0..<nat retries]"
    by (rule sendTo_no_retries_left_sleeps)
next
  fix err st1
  assume a: "connCache st receiver = [] \<and> createConnection N receiver st = (Inl err, st1)"
  then have c: "connections N msg receiver st = Inl (err, st1)"
    by (simp add: connections_def GetConnection_def)
  then show "sendTo N msg receiver retries backoff st = (Some err, st1)"
    by (simp add: sendTo.simps [of N msg receiver retries backoff st])
  from c show "sleeps st1 = sleeps st" by (rule connections_sleeps(1))
qed

theorem sendTo_retry_then_fail_witness:
  "fst (sendTo broken_network msg0 peer0 2 10 idle) = Some NoRetriesLeft \<and>
   sleeps (snd (sendTo broken_network msg0 peer0 2 10 idle)) = [10 * 1000000, 20 * 1000000] \<and>
   total_sleep (snd (sendTo broken_network msg0 peer0 2 10 idle)) = 30 * 1000000 \<and>
   connCache idle peer0 = [] \<and>
   createConnection refusing_network peer0 idle =
     (Inl (DialError ''dial tcp: connection refused''), idle\<lparr>dials := 1\<rparr>) \<and>
   sendTo refusing_network msg0 peer0 2 10 idle =
     (Some (DialError ''dial tcp: connection refused''), idle\<lparr>dials := 1\<rparr>)"
proof -
  let ?r = "sendTo broken_network msg0 peer0 2 10 idle"
  have e: "?r = (Some NoRetriesLeft, snd ?r)"
    using sendTo_broken(1) by (cases ?r) simp
  from sendTo_retry_then_fail [of broken_network msg0 peer0 idle 2 10] e
  have "sleeps (snd ?r) = sleeps idle @ map (\<lambda>i. 2 ^ i * 10 * Millisecond) [0..<nat 2]"
    by blast
  then have s: "sleeps (snd ?r) = [10 * 1000000, 20 * 1000000]"
    by (simp add: idle_def Millisecond_def upt_conv_Cons)
  then have t: "total_sleep (snd ?r) = 30 * 1000000"
    by (simp add: total_sleep_def)
  have c: "connCache idle peer0 = []" by (simp add: idle_def)
  have d: "createConnection refusing_network peer0 idle =
     (Inl (DialError ''dial tcp: connection refused''), idle\<lparr>dials := 1\<rparr>)"
    by (simp add: createConnection_def refusing_network_def peer0_def idle_def)
  from sendTo_retry_then_fail [of refusing_network msg0 peer0 idle 2 10] c d
  have "sendTo refusing_network msg0 peer0 2 10 idle =
     (Some (DialError ''dial tcp: connection refused''), idle\<lparr>dials := 1\<rparr>)"
    by blast
  with sendTo_broken(1) s t c d show ?thesis by simp
qed

end
